theory Spec2Isabelle
  imports Complex_Main "HOL-Library.Word"
begin

section \<open>Data model of the scene manager\<close>

text \<open>
  The development embeds \<^verbatim>\<open>SceneManager.cpp\<close>. C++ \<^verbatim>\<open>float\<close> values are
  represented by the real numbers their literals denote; no statement below depends on
  rounding. Console output (\<^verbatim>\<open>std::cout\<close>) is not part of the model.
\<close>

type_synonym GLuint = "32 word"

type_synonym vec2 = "real \<times> real"
type_synonym vec3 = "real \<times> real \<times> real"
type_synonym vec4 = "real \<times> real \<times> real \<times> real"

text \<open>A \<^verbatim>\<open>glm::mat4\<close> is column-major: four columns, each a \<^verbatim>\<open>vec4\<close>.\<close>

type_synonym mat4 = "vec4 \<times> vec4 \<times> vec4 \<times> vec4"

text \<open>
  The two structs are declared in \<^verbatim>\<open>SceneManager.h\<close>, which is not among the
  sources; the fields are the ones the implementation reads and writes. Both structs
  call their string field \<^verbatim>\<open>tag\<close>; the records need distinct selector names.
\<close>

record TEXTURE_INFO =
  ID :: GLuint
  texture_tag :: string

record OBJECT_MATERIAL =
  diffuseColor :: vec3
  specularColor :: vec3
  shininess :: real
  material_tag :: string

text \<open>Undefined behaviour of the C++ program is a value of the model.\<close>

datatype fault = NullPointerDereference | ArrayIndexOutOfBounds

subsection \<open>External collaborators\<close>

text \<open>
  Modelled from the spec: the shader-parameter interface (class \<^verbatim>\<open>ShaderManager\<close>,
  not among the sources) offers named-uniform setters for int, bool, float, 2/3/4-vector,
  4x4-matrix and sampler-slot values. It is modelled as a store from uniform names to the
  value last uploaded under that name; each setter overwrites one name.
\<close>

datatype uniform =
    UInt int
  | UBool bool
  | UFloat real
  | UVec2 vec2
  | UVec3 vec3
  | UVec4 vec4
  | UMat4 mat4
  | USampler2D int

type_synonym ShaderManager = "string \<rightharpoonup> uniform"

definition setIntValue :: "string \<Rightarrow> int \<Rightarrow> ShaderManager \<Rightarrow> ShaderManager" where
  "setIntValue name v sh = sh(name \<mapsto> UInt v)"

definition setBoolValue :: "string \<Rightarrow> bool \<Rightarrow> ShaderManager \<Rightarrow> ShaderManager" where
  "setBoolValue name v sh = sh(name \<mapsto> UBool v)"

definition setFloatValue :: "string \<Rightarrow> real \<Rightarrow> ShaderManager \<Rightarrow> ShaderManager" where
  "setFloatValue name v sh = sh(name \<mapsto> UFloat v)"

definition setVec2Value :: "string \<Rightarrow> vec2 \<Rightarrow> ShaderManager \<Rightarrow> ShaderManager" where
  "setVec2Value name v sh = sh(name \<mapsto> UVec2 v)"

definition setVec3Value :: "string \<Rightarrow> vec3 \<Rightarrow> ShaderManager \<Rightarrow> ShaderManager" where
  "setVec3Value name v sh = sh(name \<mapsto> UVec3 v)"

definition setVec4Value :: "string \<Rightarrow> vec4 \<Rightarrow> ShaderManager \<Rightarrow> ShaderManager" where
  "setVec4Value name v sh = sh(name \<mapsto> UVec4 v)"

definition setMat4Value :: "string \<Rightarrow> mat4 \<Rightarrow> ShaderManager \<Rightarrow> ShaderManager" where
  "setMat4Value name v sh = sh(name \<mapsto> UMat4 v)"

definition setSampler2DValue :: "string \<Rightarrow> int \<Rightarrow> ShaderManager \<Rightarrow> ShaderManager" where
  "setSampler2DValue name v sh = sh(name \<mapsto> USampler2D v)"

text \<open>
  Modelled from the spec: the image decoder \<^verbatim>\<open>stbi_load\<close> (library \<^verbatim>\<open>stb_image\<close>,
  not among the sources) yields pixels, width, height and channel count, or fails. The
  file system it reads is the function \<open>stbi_load\<close> that the loading operations take
  as a parameter; vertical flipping, which the source always requests, is part of it.
\<close>

record stbi_image =
  img_width :: int
  img_height :: int
  img_colorChannels :: int
  img_pixels :: "8 word list"

type_synonym decoder = "string \<Rightarrow> stbi_image option"

text \<open>
  Modelled from the spec: the graphics context (OpenGL, not among the sources) is an
  opaque service. The model records every call the program issues, oldest first, with
  its arguments. \<open>ActiveTexture i\<close> stands for \<^verbatim>\<open>glActiveTexture(GL_TEXTURE0 + i)\<close>.
  \<open>DeleteTextures\<close> is the call of the API that releases a texture name; the
  program never issues it. The name that the \<open>k\<close>-th call of \<^verbatim>\<open>glGenTextures\<close>
  returns is the driver's choice \<open>gl_fresh k\<close>.
\<close>

datatype GLenum =
    GL_TEXTURE_2D | GL_TEXTURE_WRAP_S | GL_TEXTURE_WRAP_T | GL_TEXTURE_MIN_FILTER
  | GL_TEXTURE_MAG_FILTER | GL_REPEAT | GL_LINEAR | GL_RGB8 | GL_RGB | GL_RGBA8 | GL_RGBA
  | GL_UNSIGNED_BYTE

datatype gl_call =
    GenTextures GLuint
  | DeleteTextures GLuint
  | BindTexture GLenum GLuint
  | ActiveTexture int
  | TexParameteri GLenum GLenum GLenum
  | TexImage2D GLenum int GLenum int int int GLenum GLenum stbi_image
  | GenerateMipmap GLenum

record gl_context =
  gl_calls :: "gl_call list"
  gl_generated :: nat
  gl_fresh :: "nat \<Rightarrow> GLuint"

definition gl_issue :: "gl_call \<Rightarrow> gl_context \<Rightarrow> gl_context" where
  "gl_issue c g = g\<lparr>gl_calls := gl_calls g @ [c]\<rparr>"

definition glGenTextures :: "gl_context \<Rightarrow> GLuint \<times> gl_context" where
  "glGenTextures g =
     (let name = gl_fresh g (gl_generated g)
      in (name, g\<lparr>gl_calls := gl_calls g @ [GenTextures name],
                   gl_generated := gl_generated g + 1\<rparr>))"

definition glBindTexture :: "GLenum \<Rightarrow> GLuint \<Rightarrow> gl_context \<Rightarrow> gl_context" where
  "glBindTexture target texture = gl_issue (BindTexture target texture)"

definition glActiveTexture :: "int \<Rightarrow> gl_context \<Rightarrow> gl_context" where
  "glActiveTexture i = gl_issue (ActiveTexture i)"

definition glTexParameteri :: "GLenum \<Rightarrow> GLenum \<Rightarrow> GLenum \<Rightarrow> gl_context \<Rightarrow> gl_context" where
  "glTexParameteri target pname param = gl_issue (TexParameteri target pname param)"

definition glTexImage2D ::
  "GLenum \<Rightarrow> int \<Rightarrow> GLenum \<Rightarrow> int \<Rightarrow> int \<Rightarrow> int \<Rightarrow> GLenum \<Rightarrow> GLenum \<Rightarrow> stbi_image
     \<Rightarrow> gl_context \<Rightarrow> gl_context" where
  "glTexImage2D target level internalformat w h border format type pixels =
     gl_issue (TexImage2D target level internalformat w h border format type pixels)"

definition glGenerateMipmap :: "GLenum \<Rightarrow> gl_context \<Rightarrow> gl_context" where
  "glGenerateMipmap target = gl_issue (GenerateMipmap target)"

text \<open>
  What a call sequence leaves behind: the texture names it generated, the texture names
  it released, and the texture bound to \<^verbatim>\<open>GL_TEXTURE_2D\<close> on each texture unit (unit 0 is active at
  first, and name 0 means that no texture is bound).
\<close>

fun generated_textures :: "gl_call list \<Rightarrow> GLuint list" where
  "generated_textures [] = []"
| "generated_textures (GenTextures n # cs) = n # generated_textures cs"
| "generated_textures (c # cs) = generated_textures cs"

fun released_textures :: "gl_call list \<Rightarrow> GLuint list" where
  "released_textures [] = []"
| "released_textures (DeleteTextures n # cs) = n # released_textures cs"
| "released_textures (c # cs) = released_textures cs"

fun bind_step :: "int \<times> (int \<Rightarrow> GLuint) \<Rightarrow> gl_call \<Rightarrow> int \<times> (int \<Rightarrow> GLuint)" where
  "bind_step (active, bound) (ActiveTexture i) = (i, bound)"
| "bind_step (active, bound) (BindTexture GL_TEXTURE_2D t) = (active, bound(active := t))"
| "bind_step (active, bound) c = (active, bound)"

definition unit_texture :: "gl_call list \<Rightarrow> int \<Rightarrow> GLuint" where
  "unit_texture cs = snd (foldl bind_step (0, \<lambda>u. 0) cs)"

text \<open>
  Modelled from the spec: the mesh-geometry library (class \<^verbatim>\<open>ShapeMeshes\<close>, not
  among the sources) generates the geometry of a primitive on each \<^verbatim>\<open>Load*Mesh()\<close>.
  The object behind \<^verbatim>\<open>m_basicMeshes\<close> is the list of meshes loaded so far.
\<close>

datatype mesh = PlaneMesh | BoxMesh | TaperedCylinderMesh | CylinderMesh | TorusMesh

text \<open>
  The state of one \<^verbatim>\<open>SceneManager\<close> object, together with the graphics context it
  drives. A null \<^verbatim>\<open>m_pShaderManager\<close> is \<open>None\<close>; otherwise the field holds the
  uniform store the pointer refers to. \<^verbatim>\<open>m_textureIDs\<close> is a fixed-size array (its
  capacity is the length of the list) and \<^verbatim>\<open>m_loadedTextures\<close> the \<^verbatim>\<open>int\<close> count
  of its used entries.
\<close>

record SceneManager =
  m_pShaderManager :: "ShaderManager option"
  m_basicMeshes :: "mesh list"
  m_textureIDs :: "TEXTURE_INFO list"
  m_loadedTextures :: int
  m_objectMaterials :: "OBJECT_MATERIAL list"
  gl :: gl_context

definition g_ModelName :: string where "g_ModelName = ''model''"
definition g_ColorValueName :: string where "g_ColorValueName = ''objectColor''"
definition g_TextureValueName :: string where "g_TextureValueName = ''objectTexture''"
definition g_UseTextureName :: string where "g_UseTextureName = ''bUseTexture''"
definition g_UseLightingName :: string where "g_UseLightingName = ''bUseLighting''"

section \<open>Texture registry\<close>

text \<open>
  The tail of the success path of \<^verbatim>\<open>CreateGLTexture\<close>, after the pixel upload:
  mipmaps, unbinding, and the registration of the texture in the slot
  \<^verbatim>\<open>m_textureIDs[m_loadedTextures]\<close>. A slot outside the array is undefined behaviour.
\<close>

definition register_texture ::
  "GLuint \<Rightarrow> string \<Rightarrow> gl_context \<Rightarrow> SceneManager \<Rightarrow> fault + bool \<times> SceneManager" where
  "register_texture textureID tag g this =
     (let g1 = glGenerateMipmap GL_TEXTURE_2D g;
          g2 = glBindTexture GL_TEXTURE_2D 0 g1
      in if m_loadedTextures this < 0 \<or> int (length (m_textureIDs this)) \<le> m_loadedTextures this
         then Inl ArrayIndexOutOfBounds
         else Inr (True,
           this\<lparr>m_textureIDs := (m_textureIDs this)
                   [nat (m_loadedTextures this) :=
                      (m_textureIDs this ! nat (m_loadedTextures this))
                        \<lparr>ID := textureID, texture_tag := tag\<rparr>],
                 m_loadedTextures := m_loadedTextures this + 1,
                 gl := g2\<rparr>))"

definition CreateGLTexture ::
  "decoder \<Rightarrow> string \<Rightarrow> string \<Rightarrow> SceneManager \<Rightarrow> fault + bool \<times> SceneManager" where
  "CreateGLTexture stbi_load filename tag this =
     (case stbi_load filename of
        Some img \<Rightarrow>
          (case glGenTextures (gl this) of
             (textureID, g0) \<Rightarrow>
               (let g1 = glBindTexture GL_TEXTURE_2D textureID g0;
                    g2 = glTexParameteri GL_TEXTURE_2D GL_TEXTURE_WRAP_S GL_REPEAT g1;
                    g3 = glTexParameteri GL_TEXTURE_2D GL_TEXTURE_WRAP_T GL_REPEAT g2;
                    g4 = glTexParameteri GL_TEXTURE_2D GL_TEXTURE_MIN_FILTER GL_LINEAR g3;
                    g5 = glTexParameteri GL_TEXTURE_2D GL_TEXTURE_MAG_FILTER GL_LINEAR g4
                in if img_colorChannels img = 3 then
                     register_texture textureID tag
                       (glTexImage2D GL_TEXTURE_2D 0 GL_RGB8 (img_width img) (img_height img) 0
                          GL_RGB GL_UNSIGNED_BYTE img g5) this
                   else if img_colorChannels img = 4 then
                     register_texture textureID tag
                       (glTexImage2D GL_TEXTURE_2D 0 GL_RGBA8 (img_width img) (img_height img) 0
                          GL_RGBA GL_UNSIGNED_BYTE img g5) this
                   else Inr (False, this\<lparr>gl := g5\<rparr>)))
      | None \<Rightarrow> Inr (False, this))"

text \<open>The \<^verbatim>\<open>for\<close> loop of \<^verbatim>\<open>BindGLTextures\<close>, from the loop variable \<open>i\<close> on.\<close>

function BindGLTextures_loop :: "int \<Rightarrow> SceneManager \<Rightarrow> fault + SceneManager" where
  "BindGLTextures_loop i this =
     (if i < m_loadedTextures this then
        (if i < 0 \<or> int (length (m_textureIDs this)) \<le> i then Inl ArrayIndexOutOfBounds
         else BindGLTextures_loop (i + 1)
                (this\<lparr>gl := glBindTexture GL_TEXTURE_2D (ID (m_textureIDs this ! nat i))
                                (glActiveTexture i (gl this))\<rparr>))
      else Inr this)"
  by pat_completeness auto
termination
  by (relation "measure (\<lambda>(i, this). nat (m_loadedTextures this - i))") auto

declare BindGLTextures_loop.simps [simp del]

definition BindGLTextures :: "SceneManager \<Rightarrow> fault + SceneManager" where
  "BindGLTextures this = BindGLTextures_loop 0 this"

text \<open>
  The \<^verbatim>\<open>for\<close> loop of \<^verbatim>\<open>DestroyGLTextures\<close>: each round calls
  \<^verbatim>\<open>glGenTextures(1, &m_textureIDs[i].ID)\<close>, which stores a newly generated name in
  the entry.
\<close>

function DestroyGLTextures_loop :: "int \<Rightarrow> SceneManager \<Rightarrow> fault + SceneManager" where
  "DestroyGLTextures_loop i this =
     (if i < m_loadedTextures this then
        (if i < 0 \<or> int (length (m_textureIDs this)) \<le> i then Inl ArrayIndexOutOfBounds
         else (case glGenTextures (gl this) of
                 (name, g) \<Rightarrow>
                   DestroyGLTextures_loop (i + 1)
                     (this\<lparr>m_textureIDs := (m_textureIDs this)
                             [nat i := (m_textureIDs this ! nat i)\<lparr>ID := name\<rparr>],
                           gl := g\<rparr>)))
      else Inr this)"
  by pat_completeness auto
termination
  by (relation "measure (\<lambda>(i, this). nat (m_loadedTextures this - i))")
     (auto simp: glGenTextures_def Let_def)

declare DestroyGLTextures_loop.simps [simp del]

definition DestroyGLTextures :: "SceneManager \<Rightarrow> fault + SceneManager" where
  "DestroyGLTextures this = DestroyGLTextures_loop 0 this"

text \<open>
  The \<^verbatim>\<open>while\<close> loops of \<^verbatim>\<open>FindTextureID\<close> and \<^verbatim>\<open>FindTextureSlot\<close>, with their
  three loop variables. The \<^verbatim>\<open>GLuint\<close> ID is converted to \<^verbatim>\<open>int\<close>.
\<close>

function FindTextureID_loop :: "SceneManager \<Rightarrow> string \<Rightarrow> int \<Rightarrow> bool \<Rightarrow> int \<Rightarrow> fault + int" where
  "FindTextureID_loop this tag index bFound textureID =
     (if index < m_loadedTextures this \<and> bFound = False then
        (if index < 0 \<or> int (length (m_textureIDs this)) \<le> index then Inl ArrayIndexOutOfBounds
         else if texture_tag (m_textureIDs this ! nat index) = tag then
           FindTextureID_loop this tag index True (sint (ID (m_textureIDs this ! nat index)))
         else FindTextureID_loop this tag (index + 1) bFound textureID)
      else Inr textureID)"
  by pat_completeness auto
termination
  by (relation "measure (\<lambda>(this, tag, index, bFound, textureID).
        2 * nat (m_loadedTextures this - index) + (if bFound then 0 else 1))") auto

declare FindTextureID_loop.simps [simp del]

definition FindTextureID :: "string \<Rightarrow> SceneManager \<Rightarrow> fault + int" where
  "FindTextureID tag this = FindTextureID_loop this tag 0 False (- 1)"

function FindTextureSlot_loop :: "SceneManager \<Rightarrow> string \<Rightarrow> int \<Rightarrow> bool \<Rightarrow> int \<Rightarrow> fault + int" where
  "FindTextureSlot_loop this tag index bFound textureSlot =
     (if index < m_loadedTextures this \<and> bFound = False then
        (if index < 0 \<or> int (length (m_textureIDs this)) \<le> index then Inl ArrayIndexOutOfBounds
         else if texture_tag (m_textureIDs this ! nat index) = tag then
           FindTextureSlot_loop this tag index True index
         else FindTextureSlot_loop this tag (index + 1) bFound textureSlot)
      else Inr textureSlot)"
  by pat_completeness auto
termination
  by (relation "measure (\<lambda>(this, tag, index, bFound, textureSlot).
        2 * nat (m_loadedTextures this - index) + (if bFound then 0 else 1))") auto

declare FindTextureSlot_loop.simps [simp del]

definition FindTextureSlot :: "string \<Rightarrow> SceneManager \<Rightarrow> fault + int" where
  "FindTextureSlot tag this = FindTextureSlot_loop this tag 0 False (- 1)"

section \<open>Material registry\<close>

text \<open>
  The \<^verbatim>\<open>while\<close> loop of \<^verbatim>\<open>FindMaterial\<close>, with its three loop variables.
  A match copies the three numeric fields into the output struct (not the tag) and
  sets \<^verbatim>\<open>bFound\<close>; a mismatch advances \<^verbatim>\<open>index\<close>.
\<close>

function FindMaterial_loop ::
  "OBJECT_MATERIAL list \<Rightarrow> string \<Rightarrow> nat \<Rightarrow> bool \<Rightarrow> OBJECT_MATERIAL
     \<Rightarrow> nat \<times> bool \<times> OBJECT_MATERIAL" where
  "FindMaterial_loop mats tag index bFound material =
     (if index < length mats \<and> bFound = False then
        (if material_tag (mats ! index) = tag then
           FindMaterial_loop mats tag index True
             (material\<lparr>diffuseColor := diffuseColor (mats ! index),
                       specularColor := specularColor (mats ! index),
                       shininess := shininess (mats ! index)\<rparr>)
         else FindMaterial_loop mats tag (index + 1) bFound material)
      else (index, bFound, material))"
  by pat_completeness auto
termination
  by (relation "measure (\<lambda>(mats, tag, index, bFound, material).
        2 * (length mats - index) + (if bFound then 0 else 1))") auto

declare FindMaterial_loop.simps [simp del]

text \<open>
  \<^verbatim>\<open>FindMaterial(tag, material)\<close>: the output parameter is passed in and returned
  next to the \<^verbatim>\<open>bool\<close> result. The result after the loop is the constant
  \<^verbatim>\<open>true\<close>, as in the source.
\<close>

definition FindMaterial ::
  "string \<Rightarrow> OBJECT_MATERIAL \<Rightarrow> SceneManager \<Rightarrow> bool \<times> OBJECT_MATERIAL" where
  "FindMaterial tag material this =
     (if length (m_objectMaterials this) = 0 then (False, material)
      else (case FindMaterial_loop (m_objectMaterials this) tag 0 False material of
              (index, bFound, material') \<Rightarrow> (True, material')))"

section \<open>Transform composer\<close>

text \<open>
  Modelled from the spec: the vector and matrix operations of the GLM library (not among
  the sources), over the reals: the products of \<^verbatim>\<open>glm::mat4\<close>, and
  \<^verbatim>\<open>glm::radians\<close>, \<^verbatim>\<open>glm::scale\<close>, \<^verbatim>\<open>glm::rotate\<close> and
  \<^verbatim>\<open>glm::translate\<close> of \<^verbatim>\<open>glm/gtx/transform.hpp\<close>, which apply the
  transformation to the identity matrix.
\<close>

fun vec4_times :: "vec4 \<Rightarrow> real \<Rightarrow> vec4" where
  "vec4_times (x, y, z, w) s = (x * s, y * s, z * s, w * s)"

fun vec4_plus :: "vec4 \<Rightarrow> vec4 \<Rightarrow> vec4" where
  "vec4_plus (a, b, c, d) (x, y, z, w) = (a + x, b + y, c + z, d + w)"

fun mat4_apply :: "mat4 \<Rightarrow> vec4 \<Rightarrow> vec4" where
  "mat4_apply (m0, m1, m2, m3) (x, y, z, w) =
     vec4_plus (vec4_plus (vec4_plus (vec4_times m0 x) (vec4_times m1 y)) (vec4_times m2 z))
       (vec4_times m3 w)"

fun mat4_mul :: "mat4 \<Rightarrow> mat4 \<Rightarrow> mat4" where
  "mat4_mul m (b0, b1, b2, b3) =
     (mat4_apply m b0, mat4_apply m b1, mat4_apply m b2, mat4_apply m b3)"

definition mat4_identity :: mat4 where
  "mat4_identity = ((1, 0, 0, 0), (0, 1, 0, 0), (0, 0, 1, 0), (0, 0, 0, 1))"

definition glm_radians :: "real \<Rightarrow> real" where
  "glm_radians degrees = degrees * (pi / 180)"

fun glm_normalize :: "vec3 \<Rightarrow> vec3" where
  "glm_normalize (x, y, z) =
     (let inv = 1 / sqrt (x * x + y * y + z * z) in (x * inv, y * inv, z * inv))"

fun glm_scale_mat :: "mat4 \<Rightarrow> vec3 \<Rightarrow> mat4" where
  "glm_scale_mat (m0, m1, m2, m3) (x, y, z) =
     (vec4_times m0 x, vec4_times m1 y, vec4_times m2 z, m3)"

fun glm_translate_mat :: "mat4 \<Rightarrow> vec3 \<Rightarrow> mat4" where
  "glm_translate_mat (m0, m1, m2, m3) (x, y, z) =
     (m0, m1, m2,
      vec4_plus (vec4_plus (vec4_plus (vec4_times m0 x) (vec4_times m1 y)) (vec4_times m2 z)) m3)"

fun glm_rotate_mat :: "mat4 \<Rightarrow> real \<Rightarrow> vec3 \<Rightarrow> mat4" where
  "glm_rotate_mat (m0, m1, m2, m3) angle v =
     (let c = cos angle; s = sin angle in
      case glm_normalize v of
        (ax, ay, az) \<Rightarrow>
          (let tx = (1 - c) * ax; ty = (1 - c) * ay; tz = (1 - c) * az;
               r00 = c + tx * ax; r01 = tx * ay + s * az; r02 = tx * az - s * ay;
               r10 = ty * ax - s * az; r11 = c + ty * ay; r12 = ty * az + s * ax;
               r20 = tz * ax + s * ay; r21 = tz * ay - s * ax; r22 = c + tz * az
           in (vec4_plus (vec4_plus (vec4_times m0 r00) (vec4_times m1 r01)) (vec4_times m2 r02),
               vec4_plus (vec4_plus (vec4_times m0 r10) (vec4_times m1 r11)) (vec4_times m2 r12),
               vec4_plus (vec4_plus (vec4_times m0 r20) (vec4_times m1 r21)) (vec4_times m2 r22),
               m3)))"

definition glm_scale :: "vec3 \<Rightarrow> mat4" where
  "glm_scale v = glm_scale_mat mat4_identity v"

definition glm_rotate :: "real \<Rightarrow> vec3 \<Rightarrow> mat4" where
  "glm_rotate angle v = glm_rotate_mat mat4_identity angle v"

definition glm_translate :: "vec3 \<Rightarrow> mat4" where
  "glm_translate v = glm_translate_mat mat4_identity v"

text \<open>
  \<^verbatim>\<open>SetTransformations\<close>: the five matrices, their product in the order of the
  source (the C++ product associates to the left), and the guarded upload.
\<close>

definition modelView ::
  "vec3 \<Rightarrow> real \<Rightarrow> real \<Rightarrow> real \<Rightarrow> vec3 \<Rightarrow> mat4" where
  "modelView scaleXYZ XrotationDegrees YrotationDegrees ZrotationDegrees positionXYZ =
     (let scale = glm_scale scaleXYZ;
          rotationX = glm_rotate (glm_radians XrotationDegrees) (1, 0, 0);
          rotationY = glm_rotate (glm_radians YrotationDegrees) (0, 1, 0);
          rotationZ = glm_rotate (glm_radians ZrotationDegrees) (0, 0, 1);
          translation = glm_translate positionXYZ
      in mat4_mul (mat4_mul (mat4_mul (mat4_mul translation rotationZ) rotationY) rotationX)
           scale)"

definition SetTransformations ::
  "vec3 \<Rightarrow> real \<Rightarrow> real \<Rightarrow> real \<Rightarrow> vec3 \<Rightarrow> SceneManager \<Rightarrow> SceneManager" where
  "SetTransformations scaleXYZ XrotationDegrees YrotationDegrees ZrotationDegrees positionXYZ this =
     (case m_pShaderManager this of
        None \<Rightarrow> this
      | Some sh \<Rightarrow>
          this\<lparr>m_pShaderManager := Some
            (setMat4Value g_ModelName
               (modelView scaleXYZ XrotationDegrees YrotationDegrees ZrotationDegrees positionXYZ)
               sh)\<rparr>)"

text \<open>
  The composition as the specification words it: translation, rotation about each axis
  and scale as the usual homogeneous matrices, combined as \<open>T \<cdot> Rz \<cdot> Ry \<cdot> Rx \<cdot> S\<close>.
\<close>

definition scale_matrix :: "vec3 \<Rightarrow> mat4" where
  "scale_matrix v = (case v of (x, y, z) \<Rightarrow>
     ((x, 0, 0, 0), (0, y, 0, 0), (0, 0, z, 0), (0, 0, 0, 1)))"

definition translation_matrix :: "vec3 \<Rightarrow> mat4" where
  "translation_matrix v = (case v of (x, y, z) \<Rightarrow>
     ((1, 0, 0, 0), (0, 1, 0, 0), (0, 0, 1, 0), (x, y, z, 1)))"

definition rotation_x_matrix :: "real \<Rightarrow> mat4" where
  "rotation_x_matrix a =
     ((1, 0, 0, 0), (0, cos a, sin a, 0), (0, - sin a, cos a, 0), (0, 0, 0, 1))"

definition rotation_y_matrix :: "real \<Rightarrow> mat4" where
  "rotation_y_matrix a =
     ((cos a, 0, - sin a, 0), (0, 1, 0, 0), (sin a, 0, cos a, 0), (0, 0, 0, 1))"

definition rotation_z_matrix :: "real \<Rightarrow> mat4" where
  "rotation_z_matrix a =
     ((cos a, sin a, 0, 0), (- sin a, cos a, 0, 0), (0, 0, 1, 0), (0, 0, 0, 1))"

definition Compose_spec :: "vec3 \<Rightarrow> real \<Rightarrow> real \<Rightarrow> real \<Rightarrow> vec3 \<Rightarrow> mat4" where
  "Compose_spec scale rotX rotY rotZ translation =
     mat4_mul (translation_matrix translation)
       (mat4_mul (rotation_z_matrix (rotZ * pi / 180))
          (mat4_mul (rotation_y_matrix (rotY * pi / 180))
             (mat4_mul (rotation_x_matrix (rotX * pi / 180)) (scale_matrix scale))))"

section \<open>Shader state binder\<close>

text \<open>
  The C++ \<^verbatim>\<open>bool\<close> arguments of \<^verbatim>\<open>setIntValue\<close> are converted to \<^verbatim>\<open>int\<close>:
  \<^verbatim>\<open>false\<close> is 0 and \<^verbatim>\<open>true\<close> is 1.
\<close>

definition SetShaderColor :: "real \<Rightarrow> real \<Rightarrow> real \<Rightarrow> real \<Rightarrow> SceneManager \<Rightarrow> SceneManager" where
  "SetShaderColor redColorValue greenColorValue blueColorValue alphaValue this =
     (let currentColor = (redColorValue, greenColorValue, blueColorValue, alphaValue)
      in case m_pShaderManager this of
           None \<Rightarrow> this
         | Some sh \<Rightarrow>
             this\<lparr>m_pShaderManager := Some
               (setVec4Value g_ColorValueName currentColor
                  (setIntValue g_UseTextureName 0 sh))\<rparr>)"

definition SetShaderTexture :: "string \<Rightarrow> SceneManager \<Rightarrow> fault + SceneManager" where
  "SetShaderTexture textureTag this =
     (case m_pShaderManager this of
        None \<Rightarrow> Inr this
      | Some sh \<Rightarrow>
          (let sh1 = setIntValue g_UseTextureName 1 sh
           in case FindTextureSlot textureTag this of
                Inl f \<Rightarrow> Inl f
              | Inr textureID \<Rightarrow>
                  Inr (this\<lparr>m_pShaderManager := Some
                    (setSampler2DValue g_TextureValueName textureID sh1)\<rparr>)))"

definition SetTextureUVScale :: "real \<Rightarrow> real \<Rightarrow> SceneManager \<Rightarrow> SceneManager" where
  "SetTextureUVScale u v this =
     (case m_pShaderManager this of
        None \<Rightarrow> this
      | Some sh \<Rightarrow> this\<lparr>m_pShaderManager := Some (setVec2Value ''UVscale'' (u, v) sh)\<rparr>)"

text \<open>
  \<^verbatim>\<open>SetShaderMaterial(materialTag)\<close>. The local \<^verbatim>\<open>OBJECT_MATERIAL material\<close> is
  not initialised by the source; its indeterminate contents are the parameter
  \<open>uninit\<close>. The shader manager is dereferenced without a null check.
\<close>

definition SetShaderMaterial ::
  "OBJECT_MATERIAL \<Rightarrow> string \<Rightarrow> SceneManager \<Rightarrow> fault + SceneManager" where
  "SetShaderMaterial uninit materialTag this =
     (if length (m_objectMaterials this) > 0 then
        (case FindMaterial materialTag uninit this of
           (bReturn, material) \<Rightarrow>
             if bReturn = True then
               (case m_pShaderManager this of
                  None \<Rightarrow> Inl NullPointerDereference
                | Some sh \<Rightarrow>
                    Inr (this\<lparr>m_pShaderManager := Some
                      (setFloatValue ''material.shininess'' (shininess material)
                        (setVec3Value ''material.specularColor'' (specularColor material)
                          (setVec3Value ''material.diffuseColor'' (diffuseColor material) sh)))\<rparr>))
             else Inr this)
      else Inr this)"

section \<open>Scene preparation\<close>

text \<open>Sequencing of operations that may fault: the first fault ends the run.\<close>

definition and_then :: "fault + 'a \<Rightarrow> ('a \<Rightarrow> fault + 'b) \<Rightarrow> fault + 'b" where
  "and_then r f = (case r of Inl e \<Rightarrow> Inl e | Inr x \<Rightarrow> f x)"

text \<open>
  \<^verbatim>\<open>LoadSceneTextures\<close>: five loads, whose \<^verbatim>\<open>bool\<close> results the source stores
  in \<^verbatim>\<open>bReturn\<close> and never reads, then the binding of all loaded textures.
\<close>

definition LoadSceneTextures :: "decoder \<Rightarrow> SceneManager \<Rightarrow> fault + SceneManager" where
  "LoadSceneTextures stbi_load this =
     and_then (CreateGLTexture stbi_load ''textures/Floor.jpg'' ''floor'' this) (\<lambda>(bReturn, this).
     and_then (CreateGLTexture stbi_load ''textures/Leg.jpg'' ''leg'' this) (\<lambda>(bReturn, this).
     and_then (CreateGLTexture stbi_load ''textures/Tabletop.jpg'' ''tabletop'' this) (\<lambda>(bReturn, this).
     and_then (CreateGLTexture stbi_load ''textures/Plate.jpg'' ''plate'' this) (\<lambda>(bReturn, this).
     and_then (CreateGLTexture stbi_load ''textures/Mug.jpg'' ''mug'' this) (\<lambda>(bReturn, this).
     BindGLTextures this)))))"

definition gravelMaterial :: OBJECT_MATERIAL where
  "gravelMaterial = \<lparr>diffuseColor = (0.502, 0.502, 0.502), specularColor = (0.502, 0.502, 0.502),
     shininess = 20.0, material_tag = ''gravel''\<rparr>"

definition metalMaterial :: OBJECT_MATERIAL where
  "metalMaterial = \<lparr>diffuseColor = (0.0, 0.0, 0.0), specularColor = (0.78, 0.78, 0.78),
     shininess = 85.0, material_tag = ''metal''\<rparr>"

definition woodMaterial :: OBJECT_MATERIAL where
  "woodMaterial = \<lparr>diffuseColor = (0.3, 0.25, 0.24), specularColor = (0.66, 0.26, 0.18),
     shininess = 80.0, material_tag = ''wood''\<rparr>"

definition porcelainMaterial :: OBJECT_MATERIAL where
  "porcelainMaterial = \<lparr>diffuseColor = (0.96, 0.96, 0.96), specularColor = (0.78, 0.78, 0.78),
     shininess = 80.0, material_tag = ''porcelain''\<rparr>"

definition glassMaterial :: OBJECT_MATERIAL where
  "glassMaterial = \<lparr>diffuseColor = (1.0, 1.0, 1.0), specularColor = (0.21, 0.21, 0.21),
     shininess = 95.0, material_tag = ''glass''\<rparr>"

definition push_back :: "'a \<Rightarrow> 'a list \<Rightarrow> 'a list" where
  "push_back x xs = xs @ [x]"

definition DefineObjectMaterials :: "SceneManager \<Rightarrow> SceneManager" where
  "DefineObjectMaterials this =
     this\<lparr>m_objectMaterials :=
       push_back glassMaterial
         (push_back porcelainMaterial
            (push_back woodMaterial
               (push_back metalMaterial
                  (push_back gravelMaterial (m_objectMaterials this)))))\<rparr>"

text \<open>
  \<^verbatim>\<open>SetupSceneLights\<close> dereferences the shader manager without a null check. The
  uploads are listed in the order of the source.
\<close>

definition scene_light_uploads :: "(ShaderManager \<Rightarrow> ShaderManager) list" where
  "scene_light_uploads =
     [setVec3Value ''directionalLight.direction'' (- 6.0, 5.0, 5.0),
      setVec3Value ''directionalLight.ambient'' (0.4, 0.4, 0.4),
      setVec3Value ''directionalLight.diffuse'' (0.6, 0.6, 0.6),
      setVec3Value ''directionalLight.specular'' (0.0, 0.0, 0.0),
      setBoolValue ''directionalLight.bActive'' True,
      setVec3Value ''pointLights[0].position'' (0.0, 15.0, - 8.0),
      setVec3Value ''pointLights[0].ambient'' (0.03, 0.03, 0.0),
      setVec3Value ''pointLights[0].diffuse'' (0.4, 0.4, 0.0),
      setVec3Value ''pointLights[0].specular'' (1.0, 1.0, 0.0),
      setBoolValue ''pointLights[0].bActive'' True,
      setVec3Value ''pointLights[1].position'' (5.0, 0.0, 10.0),
      setVec3Value ''pointLights[1].ambient'' (0.00, 0.00, 0.0),
      setVec3Value ''pointLights[1].diffuse'' (0.2, 0.2, 0.0),
      setVec3Value ''pointLights[1].specular'' (1.0, 1.0, 0.0),
      setBoolValue ''pointLights[1].bActive'' True,
      setVec3Value ''pointLights[2].position'' (- 5.0, 0.0, 10.0),
      setVec3Value ''pointLights[2].ambient'' (0.00, 0.00, 0.0),
      setVec3Value ''pointLights[2].diffuse'' (0.2, 0.2, 0.0),
      setVec3Value ''pointLights[2].specular'' (1.0, 1.0, 0.0),
      setBoolValue ''pointLights[2].bActive'' True,
      setBoolValue ''bUseLighting'' True]"

definition SetupSceneLights :: "SceneManager \<Rightarrow> fault + SceneManager" where
  "SetupSceneLights this =
     (case m_pShaderManager this of
        None \<Rightarrow> Inl NullPointerDereference
      | Some sh \<Rightarrow>
          Inr (this\<lparr>m_pShaderManager := Some (foldl (\<lambda>sh upload. upload sh) sh scene_light_uploads)\<rparr>))"

definition LoadMesh :: "mesh \<Rightarrow> SceneManager \<Rightarrow> SceneManager" where
  "LoadMesh m this = this\<lparr>m_basicMeshes := m_basicMeshes this @ [m]\<rparr>"

definition PrepareScene :: "decoder \<Rightarrow> SceneManager \<Rightarrow> fault + SceneManager" where
  "PrepareScene stbi_load this =
     and_then (LoadSceneTextures stbi_load this) (\<lambda>this.
     and_then (SetupSceneLights (DefineObjectMaterials this)) (\<lambda>this.
     Inr (LoadMesh TorusMesh
           (LoadMesh CylinderMesh
             (LoadMesh TaperedCylinderMesh
               (LoadMesh BoxMesh
                 (LoadMesh PlaneMesh this)))))))"

section \<open>Vocabulary of the statements\<close>

text \<open>
  The tags of the used part of the texture registry, in insertion order; the channel
  counts that \<^verbatim>\<open>CreateGLTexture\<close> uploads; the files that \<^verbatim>\<open>LoadSceneTextures\<close>
  names, and a decoder for which each of them decodes to a supported image.
\<close>

definition registered_tags :: "SceneManager \<Rightarrow> string list" where
  "registered_tags this =
     map texture_tag (take (nat (m_loadedTextures this)) (m_textureIDs this))"

definition supported_format :: "stbi_image \<Rightarrow> bool" where
  "supported_format img = (img_colorChannels img = 3 \<or> img_colorChannels img = 4)"

definition scene_texture_files :: "string list" where
  "scene_texture_files =
     [''textures/Floor.jpg'', ''textures/Leg.jpg'', ''textures/Tabletop.jpg'',
      ''textures/Plate.jpg'', ''textures/Mug.jpg'']"

definition loads_succeed :: "decoder \<Rightarrow> bool" where
  "loads_succeed stbi_load =
     list_all (\<lambda>f. case stbi_load f of None \<Rightarrow> False | Some img \<Rightarrow> supported_format img)
       scene_texture_files"

subsection \<open>Concrete states and inputs\<close>

text \<open>
  A scene manager right after construction, with an empty uniform store behind the
  shader manager, sixteen texture slots and a driver that numbers textures from 1; a
  decoder that yields a one-pixel RGB image for every file, and one that yields a
  one-pixel greyscale image; two output structs with arbitrary contents; a scene with
  the five scene materials whose shader holds the uniforms of the material \<open>metal\<close>;
  a registry in which the tag \<open>mug\<close> occurs twice.
\<close>

definition fresh_scene :: SceneManager where
  "fresh_scene =
     \<lparr>m_pShaderManager = Some Map.empty, m_basicMeshes = [],
      m_textureIDs = replicate 16 \<lparr>ID = 0, texture_tag = []\<rparr>, m_loadedTextures = 0,
      m_objectMaterials = [],
      gl = \<lparr>gl_calls = [], gl_generated = 0, gl_fresh = (\<lambda>k. of_nat k + 1)\<rparr>\<rparr>"

definition rgb_pixel :: stbi_image where
  "rgb_pixel = \<lparr>img_width = 1, img_height = 1, img_colorChannels = 3, img_pixels = [0, 0, 0]\<rparr>"

definition rgb_decoder :: decoder where
  "rgb_decoder f = Some rgb_pixel"

definition gray_decoder :: decoder where
  "gray_decoder f =
     Some \<lparr>img_width = 1, img_height = 1, img_colorChannels = 1, img_pixels = [0]\<rparr>"

definition blank_material :: OBJECT_MATERIAL where
  "blank_material =
     \<lparr>diffuseColor = (0, 0, 0), specularColor = (0, 0, 0), shininess = 0, material_tag = []\<rparr>"

definition stale_material :: OBJECT_MATERIAL where
  "stale_material =
     \<lparr>diffuseColor = (1, 2, 3), specularColor = (4, 5, 6), shininess = 7, material_tag = []\<rparr>"

definition metal_uploaded_scene :: SceneManager where
  "metal_uploaded_scene =
     DefineObjectMaterials
       (fresh_scene\<lparr>m_pShaderManager := Some
          [''material.diffuseColor'' \<mapsto> UVec3 (diffuseColor metalMaterial),
           ''material.specularColor'' \<mapsto> UVec3 (specularColor metalMaterial),
           ''material.shininess'' \<mapsto> UFloat (shininess metalMaterial)]\<rparr>)"

definition duplicate_tag_scene :: SceneManager where
  "duplicate_tag_scene =
     fresh_scene\<lparr>m_textureIDs :=
         [\<lparr>ID = 7, texture_tag = ''leg''\<rparr>, \<lparr>ID = 8, texture_tag = ''mug''\<rparr>,
          \<lparr>ID = 9, texture_tag = ''mug''\<rparr>] @ replicate 13 \<lparr>ID = 0, texture_tag = []\<rparr>,
       m_loadedTextures := 3\<rparr>"

section \<open>Lemmas on the texture registry\<close>

lemma FindTextureSlot_loop_found:
  "FindTextureSlot_loop this tag index True v = Inr v"
  by (simp add: FindTextureSlot_loop.simps)

lemma FindTextureID_loop_found:
  "FindTextureID_loop this tag index True v = Inr v"
  by (simp add: FindTextureID_loop.simps)

lemma FindTextureSlot_loop_scan:
  assumes "0 \<le> index" "index \<le> k" "k \<le> m_loadedTextures this"
    and "m_loadedTextures this \<le> int (length (m_textureIDs this))"
    and "\<forall>j. index \<le> j \<and> j < k \<longrightarrow> texture_tag (m_textureIDs this ! nat j) \<noteq> tag"
  shows "FindTextureSlot_loop this tag index False v = FindTextureSlot_loop this tag k False v"
  using assms
proof (induction "nat (k - index)" arbitrary: index)
  case 0
  then show ?case by simp
next
  case (Suc d)
  then have lt: "index < k" by linarith
  with Suc.prems have step: "FindTextureSlot_loop this tag index False v =
      FindTextureSlot_loop this tag (index + 1) False v"
    by (subst FindTextureSlot_loop.simps) auto
  have "FindTextureSlot_loop this tag (index + 1) False v = FindTextureSlot_loop this tag k False v"
    using Suc.hyps(2) Suc.prems lt by (intro Suc.hyps(1)) auto
  with step show ?case by simp
qed

lemma FindTextureID_loop_scan:
  assumes "0 \<le> index" "index \<le> k" "k \<le> m_loadedTextures this"
    and "m_loadedTextures this \<le> int (length (m_textureIDs this))"
    and "\<forall>j. index \<le> j \<and> j < k \<longrightarrow> texture_tag (m_textureIDs this ! nat j) \<noteq> tag"
  shows "FindTextureID_loop this tag index False v = FindTextureID_loop this tag k False v"
  using assms
proof (induction "nat (k - index)" arbitrary: index)
  case 0
  then show ?case by simp
next
  case (Suc d)
  then have lt: "index < k" by linarith
  with Suc.prems have step: "FindTextureID_loop this tag index False v =
      FindTextureID_loop this tag (index + 1) False v"
    by (subst FindTextureID_loop.simps) auto
  have "FindTextureID_loop this tag (index + 1) False v = FindTextureID_loop this tag k False v"
    using Suc.hyps(2) Suc.prems lt by (intro Suc.hyps(1)) auto
  with step show ?case by simp
qed

lemma registered_tags_nth:
  "j < length (registered_tags this) \<Longrightarrow>
     registered_tags this ! j = texture_tag (m_textureIDs this ! j)"
  by (simp add: registered_tags_def)

lemma length_registered_tags:
  "m_loadedTextures this \<le> int (length (m_textureIDs this)) \<Longrightarrow>
     length (registered_tags this) = nat (m_loadedTextures this)"
  by (simp add: registered_tags_def)

lemma FindTextureSlot_absent:
  assumes wf: "m_loadedTextures this \<le> int (length (m_textureIDs this))"
    and absent: "tag \<notin> set (registered_tags this)"
  shows "FindTextureSlot tag this = Inr (- 1)"
proof (cases "0 \<le> m_loadedTextures this")
  case False
  then show ?thesis by (simp add: FindTextureSlot_def FindTextureSlot_loop.simps)
next
  case True
  have "\<forall>j. 0 \<le> j \<and> j < m_loadedTextures this \<longrightarrow> texture_tag (m_textureIDs this ! nat j) \<noteq> tag"
  proof (intro allI impI)
    fix j assume j: "0 \<le> j \<and> j < m_loadedTextures this"
    then have "nat j < length (registered_tags this)"
      using wf by (simp add: length_registered_tags)
    then show "texture_tag (m_textureIDs this ! nat j) \<noteq> tag"
      using absent registered_tags_nth nth_mem by metis
  qed
  then have "FindTextureSlot_loop this tag 0 False (- 1) =
      FindTextureSlot_loop this tag (m_loadedTextures this) False (- 1)"
    using True wf by (intro FindTextureSlot_loop_scan) auto
  then show ?thesis by (simp add: FindTextureSlot_def FindTextureSlot_loop.simps [of _ _ "m_loadedTextures this"])
qed

lemma FindTextureID_absent:
  assumes wf: "m_loadedTextures this \<le> int (length (m_textureIDs this))"
    and absent: "tag \<notin> set (registered_tags this)"
  shows "FindTextureID tag this = Inr (- 1)"
proof (cases "0 \<le> m_loadedTextures this")
  case False
  then show ?thesis by (simp add: FindTextureID_def FindTextureID_loop.simps)
next
  case True
  have "\<forall>j. 0 \<le> j \<and> j < m_loadedTextures this \<longrightarrow> texture_tag (m_textureIDs this ! nat j) \<noteq> tag"
  proof (intro allI impI)
    fix j assume j: "0 \<le> j \<and> j < m_loadedTextures this"
    then have "nat j < length (registered_tags this)"
      using wf by (simp add: length_registered_tags)
    then show "texture_tag (m_textureIDs this ! nat j) \<noteq> tag"
      using absent registered_tags_nth nth_mem by metis
  qed
  then have "FindTextureID_loop this tag 0 False (- 1) =
      FindTextureID_loop this tag (m_loadedTextures this) False (- 1)"
    using True wf by (intro FindTextureID_loop_scan) auto
  then show ?thesis by (simp add: FindTextureID_def FindTextureID_loop.simps [of _ _ "m_loadedTextures this"])
qed

lemma first_match_scan:
  assumes wf: "m_loadedTextures this \<le> int (length (m_textureIDs this))"
    and k: "k < length (registered_tags this)"
    and first: "\<forall>j<k. registered_tags this ! j \<noteq> tag"
  shows "\<forall>j. 0 \<le> j \<and> j < int k \<longrightarrow> texture_tag (m_textureIDs this ! nat j) \<noteq> tag"
proof (intro allI impI)
  fix j :: int assume j: "0 \<le> j \<and> j < int k"
  then have "nat j < k" by linarith
  then show "texture_tag (m_textureIDs this ! nat j) \<noteq> tag"
    using first k registered_tags_nth [of "nat j" this] by auto
qed

lemma FindTextureSlot_first:
  assumes wf: "m_loadedTextures this \<le> int (length (m_textureIDs this))"
    and k: "k < length (registered_tags this)"
    and hit: "registered_tags this ! k = tag"
    and first: "\<forall>j<k. registered_tags this ! j \<noteq> tag"
  shows "FindTextureSlot tag this = Inr (int k)"
proof -
  have kn: "int k < m_loadedTextures this"
    using k wf by (simp add: length_registered_tags)
  have "FindTextureSlot_loop this tag 0 False (- 1) = FindTextureSlot_loop this tag (int k) False (- 1)"
    using kn wf first_match_scan [OF wf k first] by (intro FindTextureSlot_loop_scan) auto
  also have "\<dots> = FindTextureSlot_loop this tag (int k) True (int k)"
    using kn wf hit registered_tags_nth [OF k]
    by (subst FindTextureSlot_loop.simps) auto
  finally show ?thesis by (simp add: FindTextureSlot_def FindTextureSlot_loop_found)
qed

lemma FindTextureID_first:
  assumes wf: "m_loadedTextures this \<le> int (length (m_textureIDs this))"
    and k: "k < length (registered_tags this)"
    and hit: "registered_tags this ! k = tag"
    and first: "\<forall>j<k. registered_tags this ! j \<noteq> tag"
  shows "FindTextureID tag this = Inr (sint (ID (m_textureIDs this ! k)))"
proof -
  have kn: "int k < m_loadedTextures this"
    using k wf by (simp add: length_registered_tags)
  have "FindTextureID_loop this tag 0 False (- 1) = FindTextureID_loop this tag (int k) False (- 1)"
    using kn wf first_match_scan [OF wf k first] by (intro FindTextureID_loop_scan) auto
  also have "\<dots> = FindTextureID_loop this tag (int k) True (sint (ID (m_textureIDs this ! k)))"
    using kn wf hit registered_tags_nth [OF k]
    by (subst FindTextureID_loop.simps) auto
  finally show ?thesis by (simp add: FindTextureID_def FindTextureID_loop_found)
qed

lemma CreateGLTexture_success:
  assumes dec: "stbi_load filename = Some img" and fmt: "supported_format img"
    and lo: "0 \<le> m_loadedTextures this"
    and hi: "m_loadedTextures this < int (length (m_textureIDs this))"
  shows "\<exists>this'. CreateGLTexture stbi_load filename tag this = Inr (True, this') \<and>
           m_textureIDs this' = (m_textureIDs this)
              [nat (m_loadedTextures this) :=
                 (m_textureIDs this ! nat (m_loadedTextures this))
                   \<lparr>ID := gl_fresh (gl this) (gl_generated (gl this)), texture_tag := tag\<rparr>] \<and>
           m_loadedTextures this' = m_loadedTextures this + 1 \<and>
           m_pShaderManager this' = m_pShaderManager this \<and>
           m_objectMaterials this' = m_objectMaterials this"
  using assms
  by (auto simp add: CreateGLTexture_def register_texture_def glGenTextures_def Let_def supported_format_def)

lemma registered_tags_after_load:
  assumes lo: "0 \<le> m_loadedTextures this"
    and hi: "m_loadedTextures this < int (length (m_textureIDs this))"
    and ids: "m_textureIDs this' = (m_textureIDs this) [nat (m_loadedTextures this) := e]"
    and cnt: "m_loadedTextures this' = m_loadedTextures this + 1"
    and e: "texture_tag e = tag"
  shows "registered_tags this' = registered_tags this @ [tag]"
proof -
  have n: "nat (m_loadedTextures this) < length (m_textureIDs this)" using lo hi by linarith
  have "nat (m_loadedTextures this + 1) = Suc (nat (m_loadedTextures this))" using lo by linarith
  then show ?thesis
    using n e by (simp add: registered_tags_def ids cnt take_Suc_conv_app_nth)
qed

lemma load_then_find:
  assumes dec: "stbi_load filename = Some img" and fmt: "supported_format img"
    and lo: "0 \<le> m_loadedTextures this"
    and hi: "m_loadedTextures this < int (length (m_textureIDs this))"
    and fresh: "tag \<notin> set (registered_tags this)"
  shows "\<exists>this'. CreateGLTexture stbi_load filename tag this = Inr (True, this') \<and>
           FindTextureSlot tag this' = Inr (m_loadedTextures this) \<and>
           m_loadedTextures this' = m_loadedTextures this + 1 \<and>
           length (m_textureIDs this') = length (m_textureIDs this) \<and>
           registered_tags this' = registered_tags this @ [tag] \<and>
           m_pShaderManager this' = m_pShaderManager this \<and>
           m_objectMaterials this' = m_objectMaterials this"
proof -
  from CreateGLTexture_success [of stbi_load filename img this tag] dec fmt lo hi
  obtain s where c: "CreateGLTexture stbi_load filename tag this = Inr (True, s)"
    and ids: "m_textureIDs s = (m_textureIDs this)
              [nat (m_loadedTextures this) :=
                 (m_textureIDs this ! nat (m_loadedTextures this))
                   \<lparr>ID := gl_fresh (gl this) (gl_generated (gl this)), texture_tag := tag\<rparr>]"
    and cnt: "m_loadedTextures s = m_loadedTextures this + 1"
    and rest: "m_pShaderManager s = m_pShaderManager this"
      "m_objectMaterials s = m_objectMaterials this"
    by blast
  have tags: "registered_tags s = registered_tags this @ [tag]"
    using lo hi ids cnt by (rule registered_tags_after_load) simp
  have len_ids: "length (m_textureIDs s) = length (m_textureIDs this)" by (simp add: ids)
  have wf: "m_loadedTextures s \<le> int (length (m_textureIDs s))" using hi cnt len_ids by simp
  have len: "length (registered_tags this) = nat (m_loadedTextures this)"
    using hi by (simp add: length_registered_tags)
  have "FindTextureSlot tag s = Inr (int (nat (m_loadedTextures this)))"
  proof (rule FindTextureSlot_first [OF wf])
    show "nat (m_loadedTextures this) < length (registered_tags s)"
      unfolding tags using len by simp
    show "registered_tags s ! nat (m_loadedTextures this) = tag"
      unfolding tags using len by (simp add: nth_append)
    show "\<forall>j<nat (m_loadedTextures this). registered_tags s ! j \<noteq> tag"
      unfolding tags using len fresh by (auto simp add: nth_append)
  qed
  then have "FindTextureSlot tag s = Inr (m_loadedTextures this)" using lo by simp
  with c tags cnt len_ids rest show ?thesis by blast
qed

lemma unit_texture_snoc2:
  "unit_texture (cs @ [ActiveTexture i, BindTexture GL_TEXTURE_2D t]) = (unit_texture cs)(i := t)"
  by (cases "foldl bind_step (0, \<lambda>u. 0) cs") (simp add: unit_texture_def)

lemma BindGLTextures_loop_binds:
  assumes "0 \<le> i" "m_loadedTextures this \<le> int (length (m_textureIDs this))"
  shows "\<exists>this'. BindGLTextures_loop i this = Inr this' \<and>
           m_textureIDs this' = m_textureIDs this \<and>
           m_loadedTextures this' = m_loadedTextures this \<and>
           m_objectMaterials this' = m_objectMaterials this \<and>
           m_pShaderManager this' = m_pShaderManager this \<and>
           (\<forall>u. unit_texture (gl_calls (gl this')) u =
              (if i \<le> u \<and> u < m_loadedTextures this then ID (m_textureIDs this ! nat u)
               else unit_texture (gl_calls (gl this)) u))"
  using assms
proof (induction i this rule: BindGLTextures_loop.induct)
  case (1 i this)
  show ?case
  proof (cases "i < m_loadedTextures this")
    case False
    then show ?thesis by (subst BindGLTextures_loop.simps) auto
  next
    case True
    let ?s = "this\<lparr>gl := glBindTexture GL_TEXTURE_2D (ID (m_textureIDs this ! nat i))
                                (glActiveTexture i (gl this))\<rparr>"
    have inb: "\<not> (i < 0 \<or> int (length (m_textureIDs this)) \<le> i)" using True "1.prems" by linarith
    have calls: "gl_calls (gl ?s) = gl_calls (gl this) @
        [ActiveTexture i, BindTexture GL_TEXTURE_2D (ID (m_textureIDs this ! nat i))]"
      by (simp add: glBindTexture_def glActiveTexture_def gl_issue_def)
    from "1.IH" [OF True inb] "1.prems" obtain this' where
      r: "BindGLTextures_loop (i + 1) ?s = Inr this'"
      and a: "m_textureIDs this' = m_textureIDs this" "m_loadedTextures this' = m_loadedTextures this"
         "m_objectMaterials this' = m_objectMaterials this" "m_pShaderManager this' = m_pShaderManager this"
      and u: "\<forall>u. unit_texture (gl_calls (gl this')) u =
              (if i + 1 \<le> u \<and> u < m_loadedTextures this then ID (m_textureIDs this ! nat u)
               else unit_texture (gl_calls (gl ?s)) u)"
      by auto
    have "BindGLTextures_loop i this = Inr this'"
      using True inb r by (subst BindGLTextures_loop.simps) simp
    moreover have "\<forall>u. unit_texture (gl_calls (gl this')) u =
              (if i \<le> u \<and> u < m_loadedTextures this then ID (m_textureIDs this ! nat u)
               else unit_texture (gl_calls (gl this)) u)"
      using u True unfolding calls unit_texture_snoc2 by auto
    ultimately show ?thesis using a by simp
  qed
qed

lemma BindGLTextures_binds:
  assumes "m_loadedTextures this \<le> int (length (m_textureIDs this))"
  shows "\<exists>this'. BindGLTextures this = Inr this' \<and>
           m_textureIDs this' = m_textureIDs this \<and>
           m_loadedTextures this' = m_loadedTextures this \<and>
           m_objectMaterials this' = m_objectMaterials this \<and>
           m_pShaderManager this' = m_pShaderManager this \<and>
           (\<forall>i. 0 \<le> i \<and> i < m_loadedTextures this \<longrightarrow>
              unit_texture (gl_calls (gl this')) i = ID (m_textureIDs this ! nat i))"
proof -
  from BindGLTextures_loop_binds [of 0 this] assms obtain this' where
    "BindGLTextures_loop 0 this = Inr this'"
    "m_textureIDs this' = m_textureIDs this" "m_loadedTextures this' = m_loadedTextures this"
    "m_objectMaterials this' = m_objectMaterials this" "m_pShaderManager this' = m_pShaderManager this"
    "\<forall>u. unit_texture (gl_calls (gl this')) u =
              (if 0 \<le> u \<and> u < m_loadedTextures this then ID (m_textureIDs this ! nat u)
               else unit_texture (gl_calls (gl this)) u)"
    by auto
  then show ?thesis unfolding BindGLTextures_def by auto
qed

section \<open>Lemmas on scene preparation\<close>

lemma CreateGLTexture_grows:
  assumes dec: "stbi_load filename = Some img" and fmt: "supported_format img"
    and lo: "0 \<le> m_loadedTextures this"
    and hi: "m_loadedTextures this < int (length (m_textureIDs this))"
  shows "\<exists>b this'. CreateGLTexture stbi_load filename tag this = Inr (b, this') \<and>
           length (m_textureIDs this') = length (m_textureIDs this) \<and>
           m_loadedTextures this' = m_loadedTextures this + 1 \<and>
           m_pShaderManager this' = m_pShaderManager this \<and>
           m_objectMaterials this' = m_objectMaterials this"
  using CreateGLTexture_success [of stbi_load filename img this tag] assms by auto

lemma LoadSceneTextures_grows:
  assumes ok: "loads_succeed stbi_load"
    and lo: "0 \<le> m_loadedTextures this"
    and hi: "m_loadedTextures this + 5 \<le> int (length (m_textureIDs this))"
  shows "\<exists>this'. LoadSceneTextures stbi_load this = Inr this' \<and>
           length (m_textureIDs this') = length (m_textureIDs this) \<and>
           m_loadedTextures this' = m_loadedTextures this + 5 \<and>
           m_pShaderManager this' = m_pShaderManager this \<and>
           m_objectMaterials this' = m_objectMaterials this"
proof -
  from ok obtain i1 i2 i3 i4 i5 where
    d: "stbi_load ''textures/Floor.jpg'' = Some i1" "supported_format i1"
       "stbi_load ''textures/Leg.jpg'' = Some i2" "supported_format i2"
       "stbi_load ''textures/Tabletop.jpg'' = Some i3" "supported_format i3"
       "stbi_load ''textures/Plate.jpg'' = Some i4" "supported_format i4"
       "stbi_load ''textures/Mug.jpg'' = Some i5" "supported_format i5"
    by (auto simp add: loads_succeed_def scene_texture_files_def split: option.splits)
  from CreateGLTexture_grows [of stbi_load _ i1 this "''floor''", OF d(1) d(2)] lo hi
  obtain b1 s1 where s1: "CreateGLTexture stbi_load ''textures/Floor.jpg'' ''floor'' this = Inr (b1, s1)"
    "length (m_textureIDs s1) = length (m_textureIDs this)" "m_loadedTextures s1 = m_loadedTextures this + 1"
    "m_pShaderManager s1 = m_pShaderManager this" "m_objectMaterials s1 = m_objectMaterials this"
    by auto
  from CreateGLTexture_grows [of stbi_load _ i2 s1 "''leg''", OF d(3) d(4)] lo hi s1
  obtain b2 s2 where s2: "CreateGLTexture stbi_load ''textures/Leg.jpg'' ''leg'' s1 = Inr (b2, s2)"
    "length (m_textureIDs s2) = length (m_textureIDs this)" "m_loadedTextures s2 = m_loadedTextures this + 2"
    "m_pShaderManager s2 = m_pShaderManager this" "m_objectMaterials s2 = m_objectMaterials this"
    by auto
  from CreateGLTexture_grows [of stbi_load _ i3 s2 "''tabletop''", OF d(5) d(6)] lo hi s2
  obtain b3 s3 where s3: "CreateGLTexture stbi_load ''textures/Tabletop.jpg'' ''tabletop'' s2 = Inr (b3, s3)"
    "length (m_textureIDs s3) = length (m_textureIDs this)" "m_loadedTextures s3 = m_loadedTextures this + 3"
    "m_pShaderManager s3 = m_pShaderManager this" "m_objectMaterials s3 = m_objectMaterials this"
    by auto
  from CreateGLTexture_grows [of stbi_load _ i4 s3 "''plate''", OF d(7) d(8)] lo hi s3
  obtain b4 s4 where s4: "CreateGLTexture stbi_load ''textures/Plate.jpg'' ''plate'' s3 = Inr (b4, s4)"
    "length (m_textureIDs s4) = length (m_textureIDs this)" "m_loadedTextures s4 = m_loadedTextures this + 4"
    "m_pShaderManager s4 = m_pShaderManager this" "m_objectMaterials s4 = m_objectMaterials this"
    by auto
  from CreateGLTexture_grows [of stbi_load _ i5 s4 "''mug''", OF d(9) d(10)] lo hi s4
  obtain b5 s5 where s5: "CreateGLTexture stbi_load ''textures/Mug.jpg'' ''mug'' s4 = Inr (b5, s5)"
    "length (m_textureIDs s5) = length (m_textureIDs this)" "m_loadedTextures s5 = m_loadedTextures this + 5"
    "m_pShaderManager s5 = m_pShaderManager this" "m_objectMaterials s5 = m_objectMaterials this"
    by auto
  from BindGLTextures_binds [of s5] hi s5
  obtain s6 where s6: "BindGLTextures s5 = Inr s6" "m_textureIDs s6 = m_textureIDs s5"
    "m_loadedTextures s6 = m_loadedTextures s5" "m_objectMaterials s6 = m_objectMaterials s5"
    "m_pShaderManager s6 = m_pShaderManager s5"
    by auto
  have "LoadSceneTextures stbi_load this = Inr s6"
    by (simp add: LoadSceneTextures_def and_then_def s1(1) s2(1) s3(1) s4(1) s5(1) s6(1))
  with s5 s6 show ?thesis by simp
qed

lemma PrepareScene_grows:
  assumes sh: "m_pShaderManager this \<noteq> None"
    and ok: "loads_succeed stbi_load"
    and lo: "0 \<le> m_loadedTextures this"
    and hi: "m_loadedTextures this + 5 \<le> int (length (m_textureIDs this))"
  shows "\<exists>this'. PrepareScene stbi_load this = Inr this' \<and>
           length (m_textureIDs this') = length (m_textureIDs this) \<and>
           m_loadedTextures this' = m_loadedTextures this + 5 \<and>
           length (m_objectMaterials this') = length (m_objectMaterials this) + 5 \<and>
           m_pShaderManager this' \<noteq> None"
proof -
  from LoadSceneTextures_grows [OF ok lo hi] obtain s where
    s: "LoadSceneTextures stbi_load this = Inr s"
    "length (m_textureIDs s) = length (m_textureIDs this)"
    "m_loadedTextures s = m_loadedTextures this + 5"
    "m_pShaderManager s = m_pShaderManager this"
    "m_objectMaterials s = m_objectMaterials this"
    by blast
  from sh obtain store where store: "m_pShaderManager this = Some store" by auto
  then have "m_pShaderManager s = Some store" using s(4) by simp
  then show ?thesis
    using s(1,2,3,5)
    by (simp add: PrepareScene_def and_then_def SetupSceneLights_def DefineObjectMaterials_def
        LoadMesh_def push_back_def)
qed

section \<open>Lemmas on the transform composer and the material registry\<close>

lemma mat4_apply_mul:
  "mat4_apply (mat4_mul a b) v = mat4_apply a (mat4_apply b v)"
  by (cases a rule: prod_cases4; cases b rule: prod_cases4; cases v rule: prod_cases4)
     (auto simp add: algebra_simps split: prod.splits)

lemma mat4_mul_assoc:
  "mat4_mul (mat4_mul a b) c = mat4_mul a (mat4_mul b c)"
  by (cases c rule: prod_cases4) (simp add: mat4_apply_mul)

lemma glm_scale_spec: "glm_scale v = scale_matrix v"
  by (cases v rule: prod_cases3) (simp add: glm_scale_def scale_matrix_def mat4_identity_def)

lemma glm_translate_spec: "glm_translate v = translation_matrix v"
  by (cases v rule: prod_cases3) (simp add: glm_translate_def translation_matrix_def mat4_identity_def)

lemma glm_rotate_x_spec: "glm_rotate (glm_radians d) (1, 0, 0) = rotation_x_matrix (d * pi / 180)"
  by (simp add: glm_rotate_def glm_radians_def rotation_x_matrix_def mat4_identity_def Let_def)

lemma glm_rotate_y_spec: "glm_rotate (glm_radians d) (0, 1, 0) = rotation_y_matrix (d * pi / 180)"
  by (simp add: glm_rotate_def glm_radians_def rotation_y_matrix_def mat4_identity_def Let_def)

lemma glm_rotate_z_spec: "glm_rotate (glm_radians d) (0, 0, 1) = rotation_z_matrix (d * pi / 180)"
  by (simp add: glm_rotate_def glm_radians_def rotation_z_matrix_def mat4_identity_def Let_def)

lemma modelView_spec: "modelView s rx ry rz t = Compose_spec s rx ry rz t"
  by (simp add: modelView_def Compose_spec_def Let_def glm_scale_spec glm_translate_spec
      glm_rotate_x_spec glm_rotate_y_spec glm_rotate_z_spec mat4_mul_assoc)

lemma modelView_identity: "modelView (1, 1, 1) 0 0 0 (0, 0, 0) = mat4_identity"
  by (simp add: modelView_spec Compose_spec_def scale_matrix_def translation_matrix_def
      rotation_x_matrix_def rotation_y_matrix_def rotation_z_matrix_def mat4_identity_def)

lemma FindMaterial_fails_iff_empty:
  "fst (FindMaterial tag material this) = False \<longleftrightarrow> m_objectMaterials this = []"
  by (simp add: FindMaterial_def split: prod.splits)

section \<open>The claims\<close>

text \<open>
  C1. The claim: for a non-empty material registry and a tag that matches no entry,
  \<^verbatim>\<open>FindMaterial\<close> reports not-found. The code reports success: the registry of
  the five scene materials is searched for the tag \<open>plastic\<close>, the loop exhausts the
  list with \<^verbatim>\<open>bFound\<close> still false, and the result is \<^verbatim>\<open>true\<close> with the output
  struct untouched.
\<close>

theorem FindMaterial_absent_tag_reports_success:
  "FindMaterial ''plastic'' blank_material (DefineObjectMaterials fresh_scene) =
     (True, blank_material)"
  by (simp add: FindMaterial_def DefineObjectMaterials_def fresh_scene_def push_back_def
      FindMaterial_loop.simps gravelMaterial_def metalMaterial_def woodMaterial_def
      porcelainMaterial_def glassMaterial_def)

text \<open>
  C2. The claim: for a tag whose material lookup fails, \<^verbatim>\<open>SetShaderMaterial\<close>
  uploads nothing and the material uniforms uploaded before persist. The code uploads:
  with the five scene materials defined and the uniforms of \<open>metal\<close> in the shader, the
  tag \<open>plastic\<close> matches no entry, \<^verbatim>\<open>FindMaterial\<close> still returns \<^verbatim>\<open>true\<close>, and
  the three uniforms are overwritten with the contents of the uninitialised local struct.
\<close>

theorem SetShaderMaterial_absent_tag_overwrites_uniforms:
  "(case SetShaderMaterial stale_material ''plastic'' metal_uploaded_scene of
      Inl f \<Rightarrow> False
    | Inr this \<Rightarrow>
        (case m_pShaderManager this of
           None \<Rightarrow> False
         | Some sh \<Rightarrow>
             sh ''material.diffuseColor'' = Some (UVec3 (1, 2, 3)) \<and>
             sh ''material.specularColor'' = Some (UVec3 (4, 5, 6)) \<and>
             sh ''material.shininess'' = Some (UFloat 7) \<and>
             sh ''material.shininess'' \<noteq> Some (UFloat (shininess metalMaterial))))"
  by (simp add: SetShaderMaterial_def FindMaterial_def metal_uploaded_scene_def
      DefineObjectMaterials_def fresh_scene_def push_back_def FindMaterial_loop.simps
      gravelMaterial_def metalMaterial_def woodMaterial_def porcelainMaterial_def
      glassMaterial_def stale_material_def setVec3Value_def setFloatValue_def)

text \<open>
  C3. The claim: an image whose channel count is neither 3 nor 4 makes
  \<^verbatim>\<open>CreateGLTexture\<close> fail, leaves the registry size unchanged and creates no GPU
  texture. On a one-channel image the code does return \<^verbatim>\<open>false\<close> and leaves
  \<^verbatim>\<open>m_loadedTextures\<close> alone, but it has generated and bound a texture name before it
  looks at the channel count, and returns without releasing it.
\<close>

theorem CreateGLTexture_one_channel_generates_texture:
  "(case CreateGLTexture gray_decoder ''textures/Gray.png'' ''gray'' fresh_scene of
      Inl f \<Rightarrow> False
    | Inr (bReturn, this) \<Rightarrow>
        bReturn = False \<and>
        m_loadedTextures this = m_loadedTextures fresh_scene \<and>
        gl_calls (gl this) =
          [GenTextures 1, BindTexture GL_TEXTURE_2D 1,
           TexParameteri GL_TEXTURE_2D GL_TEXTURE_WRAP_S GL_REPEAT,
           TexParameteri GL_TEXTURE_2D GL_TEXTURE_WRAP_T GL_REPEAT,
           TexParameteri GL_TEXTURE_2D GL_TEXTURE_MIN_FILTER GL_LINEAR,
           TexParameteri GL_TEXTURE_2D GL_TEXTURE_MAG_FILTER GL_LINEAR] \<and>
        generated_textures (gl_calls (gl this)) = [1] \<and>
        released_textures (gl_calls (gl this)) = [])"
  by (simp add: CreateGLTexture_def gray_decoder_def fresh_scene_def glGenTextures_def
      glBindTexture_def glTexParameteri_def gl_issue_def Let_def)

text \<open>
  C4. With a shader manager present, \<^verbatim>\<open>SetTransformations\<close> uploads under the name
  \<open>model\<close> the matrix \<open>T \<cdot> Rz \<cdot> Ry \<cdot> Rx \<cdot> S\<close> of its arguments: applied to a vector it
  scales first, then rotates about X, then Y, then Z, and translates last. For scale
  (1,1,1), no rotation and no translation the uploaded matrix is the identity.
\<close>

theorem SetTransformations_uploads_T_Rz_Ry_Rx_S:
  assumes "m_pShaderManager this = Some sh"
  shows "SetTransformations scaleXYZ rx ry rz positionXYZ this =
           this\<lparr>m_pShaderManager := Some
             (sh(''model'' \<mapsto> UMat4 (Compose_spec scaleXYZ rx ry rz positionXYZ)))\<rparr> \<and>
         mat4_apply (Compose_spec scaleXYZ rx ry rz positionXYZ) p =
           mat4_apply (translation_matrix positionXYZ)
             (mat4_apply (rotation_z_matrix (rz * pi / 180))
               (mat4_apply (rotation_y_matrix (ry * pi / 180))
                 (mat4_apply (rotation_x_matrix (rx * pi / 180))
                   (mat4_apply (scale_matrix scaleXYZ) p)))) \<and>
         SetTransformations (1, 1, 1) 0 0 0 (0, 0, 0) this =
           this\<lparr>m_pShaderManager := Some (sh(''model'' \<mapsto> UMat4 mat4_identity))\<rparr>"
proof -
  have "SetTransformations scaleXYZ rx ry rz positionXYZ this =
           this\<lparr>m_pShaderManager := Some
             (sh(''model'' \<mapsto> UMat4 (Compose_spec scaleXYZ rx ry rz positionXYZ)))\<rparr>"
    using assms
    by (simp add: SetTransformations_def setMat4Value_def g_ModelName_def modelView_spec)
  moreover have "SetTransformations (1, 1, 1) 0 0 0 (0, 0, 0) this =
           this\<lparr>m_pShaderManager := Some (sh(''model'' \<mapsto> UMat4 mat4_identity))\<rparr>"
    using assms
    by (simp add: SetTransformations_def setMat4Value_def g_ModelName_def modelView_identity)
  moreover have "mat4_apply (Compose_spec scaleXYZ rx ry rz positionXYZ) p =
           mat4_apply (translation_matrix positionXYZ)
             (mat4_apply (rotation_z_matrix (rz * pi / 180))
               (mat4_apply (rotation_y_matrix (ry * pi / 180))
                 (mat4_apply (rotation_x_matrix (rx * pi / 180))
                   (mat4_apply (scale_matrix scaleXYZ) p))))"
    by (simp add: Compose_spec_def mat4_apply_mul)
  ultimately show ?thesis by simp
qed

theorem SetTransformations_witness:
  "m_pShaderManager fresh_scene = Some Map.empty \<and>
   SetTransformations (2, 1, 1) 0 90 0 (1, 0, 0) fresh_scene =
     fresh_scene\<lparr>m_pShaderManager := Some
       [''model'' \<mapsto> UMat4 (Compose_spec (2, 1, 1) 0 90 0 (1, 0, 0))]\<rparr> \<and>
   mat4_apply (Compose_spec (2, 1, 1) 0 90 0 (1, 0, 0)) (1, 0, 0, 1) = (1, 0, - 2, 1) \<and>
   SetTransformations (1, 1, 1) 0 0 0 (0, 0, 0) fresh_scene =
     fresh_scene\<lparr>m_pShaderManager := Some [''model'' \<mapsto> UMat4 mat4_identity]\<rparr>"
proof -
  have h: "m_pShaderManager fresh_scene = Some Map.empty"
    by (simp add: fresh_scene_def)
  have "mat4_apply (translation_matrix (1, 0, 0))
          (mat4_apply (rotation_z_matrix (0 * pi / 180))
            (mat4_apply (rotation_y_matrix (90 * pi / 180))
              (mat4_apply (rotation_x_matrix (0 * pi / 180))
                (mat4_apply (scale_matrix (2, 1, 1)) (1, 0, 0, 1))))) = (1, 0, - 2, 1)"
    by (simp add: scale_matrix_def translation_matrix_def rotation_x_matrix_def
        rotation_y_matrix_def rotation_z_matrix_def)
  with h SetTransformations_uploads_T_Rz_Ry_Rx_S
      [OF h, of "(2, 1, 1)" 0 90 0 "(1, 0, 0)" "(1, 0, 0, 1)"]
  show ?thesis by simp
qed

text \<open>
  C5. The claim: \<^verbatim>\<open>DestroyGLTextures\<close> releases every texture of the registry. The
  code calls \<^verbatim>\<open>glGenTextures\<close> for each entry instead. After the five scene textures
  are loaded (names 1 to 5), \<^verbatim>\<open>DestroyGLTextures\<close> generates five more names, stores
  them over the registered IDs, and releases nothing.
\<close>

theorem DestroyGLTextures_generates_instead_of_releasing:
  "(case and_then (LoadSceneTextures rgb_decoder fresh_scene) DestroyGLTextures of
      Inl f \<Rightarrow> False
    | Inr this \<Rightarrow>
        m_loadedTextures this = 5 \<and>
        map ID (take 5 (m_textureIDs this)) = [6, 7, 8, 9, 10] \<and>
        generated_textures (gl_calls (gl this)) = [1, 2, 3, 4, 5, 6, 7, 8, 9, 10] \<and>
        released_textures (gl_calls (gl this)) = [])"
  by (simp add: LoadSceneTextures_def and_then_def CreateGLTexture_def register_texture_def
      rgb_decoder_def rgb_pixel_def fresh_scene_def glGenTextures_def glGenerateMipmap_def
      glTexImage2D_def glBindTexture_def glTexParameteri_def glActiveTexture_def gl_issue_def
      Let_def BindGLTextures_def BindGLTextures_loop.simps DestroyGLTextures_def
      DestroyGLTextures_loop.simps numeral_eq_Suc)

text \<open>
  C6. \<^verbatim>\<open>PrepareScene\<close> has no guard against a second call. From a scene manager with
  empty registries, a shader manager and room for ten textures, with every texture load
  succeeding both times, the first call leaves 5 loaded textures and 5 materials and the
  second call is neither rejected nor a no-op: it leaves 10 and 10.
\<close>

theorem PrepareScene_twice_doubles_registries:
  assumes "m_pShaderManager this \<noteq> None"
    and "m_loadedTextures this = 0" and "m_objectMaterials this = []"
    and "10 \<le> length (m_textureIDs this)"
    and "loads_succeed first_load" and "loads_succeed second_load"
  shows "\<exists>once twice. PrepareScene first_load this = Inr once \<and>
           m_loadedTextures once = 5 \<and> length (m_objectMaterials once) = 5 \<and>
           PrepareScene second_load once = Inr twice \<and>
           m_loadedTextures twice = 10 \<and> length (m_objectMaterials twice) = 10"
proof -
  from PrepareScene_grows [of this first_load] assms obtain once where
    once: "PrepareScene first_load this = Inr once"
      "length (m_textureIDs once) = length (m_textureIDs this)"
      "m_loadedTextures once = 5" "length (m_objectMaterials once) = 5"
      "m_pShaderManager once \<noteq> None"
    by auto
  from PrepareScene_grows [of once second_load] assms once obtain twice where
    "PrepareScene second_load once = Inr twice"
      "m_loadedTextures twice = 10" "length (m_objectMaterials twice) = 10"
    by auto
  with once show ?thesis by blast
qed

theorem PrepareScene_twice_witness:
  "m_pShaderManager fresh_scene \<noteq> None \<and> m_loadedTextures fresh_scene = 0 \<and>
   m_objectMaterials fresh_scene = [] \<and> 10 \<le> length (m_textureIDs fresh_scene) \<and>
   loads_succeed rgb_decoder \<and>
   (\<exists>once twice. PrepareScene rgb_decoder fresh_scene = Inr once \<and>
      m_loadedTextures once = 5 \<and> length (m_objectMaterials once) = 5 \<and>
      PrepareScene rgb_decoder once = Inr twice \<and>
      m_loadedTextures twice = 10 \<and> length (m_objectMaterials twice) = 10)"
  using PrepareScene_twice_doubles_registries [of fresh_scene rgb_decoder rgb_decoder]
  by (simp add: fresh_scene_def loads_succeed_def scene_texture_files_def rgb_decoder_def
      rgb_pixel_def supported_format_def)

text \<open>
  C7. In every registry state whose count is within the array, the empty one included,
  \<^verbatim>\<open>FindTextureID\<close> and \<^verbatim>\<open>FindTextureSlot\<close> return -1 for a tag that is not
  registered; and for a registered tag they return the ID and the index of the first
  entry that carries it, whatever follows.
\<close>

theorem FindTexture_absent_minus_one_else_first_match:
  assumes "m_loadedTextures this \<le> int (length (m_textureIDs this))"
  shows "(tag \<notin> set (registered_tags this) \<longrightarrow>
            FindTextureID tag this = Inr (- 1) \<and> FindTextureSlot tag this = Inr (- 1)) \<and>
         (k < length (registered_tags this) \<and> registered_tags this ! k = tag \<and>
            (\<forall>j<k. registered_tags this ! j \<noteq> tag) \<longrightarrow>
            FindTextureID tag this = Inr (sint (ID (m_textureIDs this ! k))) \<and>
            FindTextureSlot tag this = Inr (int k))"
  using assms FindTextureID_absent FindTextureSlot_absent FindTextureID_first FindTextureSlot_first
  by blast

theorem FindTexture_witness:
  "m_loadedTextures fresh_scene \<le> int (length (m_textureIDs fresh_scene)) \<and>
   ''mug'' \<notin> set (registered_tags fresh_scene) \<and>
   FindTextureID ''mug'' fresh_scene = Inr (- 1) \<and>
   FindTextureSlot ''mug'' fresh_scene = Inr (- 1) \<and>
   m_loadedTextures duplicate_tag_scene \<le> int (length (m_textureIDs duplicate_tag_scene)) \<and>
   registered_tags duplicate_tag_scene = [''leg'', ''mug'', ''mug''] \<and>
   FindTextureID ''plate'' duplicate_tag_scene = Inr (- 1) \<and>
   FindTextureSlot ''plate'' duplicate_tag_scene = Inr (- 1) \<and>
   FindTextureID ''mug'' duplicate_tag_scene = Inr 8 \<and>
   FindTextureSlot ''mug'' duplicate_tag_scene = Inr 1"
proof -
  have tags: "registered_tags duplicate_tag_scene = [''leg'', ''mug'', ''mug'']"
    "registered_tags fresh_scene = []"
    by (simp_all add: registered_tags_def duplicate_tag_scene_def fresh_scene_def numeral_eq_Suc)
  have wf: "m_loadedTextures duplicate_tag_scene \<le> int (length (m_textureIDs duplicate_tag_scene))"
    "m_loadedTextures fresh_scene \<le> int (length (m_textureIDs fresh_scene))"
    by (simp_all add: duplicate_tag_scene_def fresh_scene_def)
  have id: "sint (ID (m_textureIDs duplicate_tag_scene ! 1)) = 8"
    by (simp add: duplicate_tag_scene_def fresh_scene_def)
  from FindTexture_absent_minus_one_else_first_match [OF wf(2), of "''mug''" 0]
    FindTexture_absent_minus_one_else_first_match [OF wf(1), of "''plate''" 0]
    FindTexture_absent_minus_one_else_first_match [OF wf(1), of "''mug''" 1]
  show ?thesis using tags wf id by simp
qed

text \<open>
  C8. From a registry with room for two more entries, loading a supported (3- or
  4-channel) image under a tag not yet registered succeeds and appends the tag, and
  \<^verbatim>\<open>FindTextureSlot\<close> on that tag returns the insertion index, the non-negative
  previous count; a second such load under another new tag yields the index one greater.
  \<^verbatim>\<open>BindGLTextures\<close>, in any state whose count is within the array, leaves the
  registry as it is and binds, for every index below the count, the ID stored at that
  index to the texture unit of the same number.
\<close>

theorem load_find_unit_and_bind_follow_insertion_index:
  assumes "0 \<le> m_loadedTextures this"
    and "m_loadedTextures this + 2 \<le> int (length (m_textureIDs this))"
    and "stbi_load file1 = Some img1" and "supported_format img1"
    and "stbi_load file2 = Some img2" and "supported_format img2"
    and "tag1 \<notin> set (registered_tags this)" and "tag2 \<notin> set (registered_tags this)"
    and "tag2 \<noteq> tag1"
    and "m_loadedTextures that \<le> int (length (m_textureIDs that))"
  shows "\<exists>first second bound.
           CreateGLTexture stbi_load file1 tag1 this = Inr (True, first) \<and>
           registered_tags first = registered_tags this @ [tag1] \<and>
           FindTextureSlot tag1 first = Inr (m_loadedTextures this) \<and>
           CreateGLTexture stbi_load file2 tag2 first = Inr (True, second) \<and>
           registered_tags second = registered_tags this @ [tag1, tag2] \<and>
           FindTextureSlot tag2 second = Inr (m_loadedTextures this + 1) \<and>
           BindGLTextures that = Inr bound \<and>
           m_textureIDs bound = m_textureIDs that \<and>
           m_loadedTextures bound = m_loadedTextures that \<and>
           (\<forall>i. 0 \<le> i \<and> i < m_loadedTextures that \<longrightarrow>
              unit_texture (gl_calls (gl bound)) i = ID (m_textureIDs that ! nat i))"
proof -
  from load_then_find [of stbi_load file1 img1 this tag1] assms obtain first where
    f: "CreateGLTexture stbi_load file1 tag1 this = Inr (True, first)"
      "FindTextureSlot tag1 first = Inr (m_loadedTextures this)"
      "m_loadedTextures first = m_loadedTextures this + 1"
      "length (m_textureIDs first) = length (m_textureIDs this)"
      "registered_tags first = registered_tags this @ [tag1]"
    by auto
  from load_then_find [of stbi_load file2 img2 first tag2] assms f obtain second where
    s: "CreateGLTexture stbi_load file2 tag2 first = Inr (True, second)"
      "FindTextureSlot tag2 second = Inr (m_loadedTextures this + 1)"
      "registered_tags second = registered_tags this @ [tag1, tag2]"
    by auto
  from BindGLTextures_binds [of that] assms obtain bound where
    "BindGLTextures that = Inr bound" "m_textureIDs bound = m_textureIDs that"
    "m_loadedTextures bound = m_loadedTextures that"
    "\<forall>i. 0 \<le> i \<and> i < m_loadedTextures that \<longrightarrow>
        unit_texture (gl_calls (gl bound)) i = ID (m_textureIDs that ! nat i)"
    by auto
  with f s show ?thesis by blast
qed

theorem load_find_unit_and_bind_witness:
  "0 \<le> m_loadedTextures fresh_scene \<and>
   m_loadedTextures fresh_scene + 2 \<le> int (length (m_textureIDs fresh_scene)) \<and>
   rgb_decoder ''textures/Floor.jpg'' = Some rgb_pixel \<and> supported_format rgb_pixel \<and>
   rgb_decoder ''textures/Leg.jpg'' = Some rgb_pixel \<and>
   ''floor'' \<notin> set (registered_tags fresh_scene) \<and>
   ''leg'' \<notin> set (registered_tags fresh_scene) \<and> ''leg'' \<noteq> ''floor'' \<and>
   m_loadedTextures duplicate_tag_scene \<le> int (length (m_textureIDs duplicate_tag_scene)) \<and>
   (\<exists>first second bound.
      CreateGLTexture rgb_decoder ''textures/Floor.jpg'' ''floor'' fresh_scene = Inr (True, first) \<and>
      registered_tags first = [''floor''] \<and>
      FindTextureSlot ''floor'' first = Inr 0 \<and>
      CreateGLTexture rgb_decoder ''textures/Leg.jpg'' ''leg'' first = Inr (True, second) \<and>
      registered_tags second = [''floor'', ''leg''] \<and>
      FindTextureSlot ''leg'' second = Inr 1 \<and>
      BindGLTextures duplicate_tag_scene = Inr bound \<and>
      unit_texture (gl_calls (gl bound)) 0 = 7 \<and>
      unit_texture (gl_calls (gl bound)) 1 = 8 \<and>
      unit_texture (gl_calls (gl bound)) 2 = 9)"
proof -
  have tags: "registered_tags fresh_scene = []"
    by (simp add: registered_tags_def fresh_scene_def)
  have h: "0 \<le> m_loadedTextures fresh_scene"
    "m_loadedTextures fresh_scene + 2 \<le> int (length (m_textureIDs fresh_scene))"
    "rgb_decoder ''textures/Floor.jpg'' = Some rgb_pixel" "supported_format rgb_pixel"
    "rgb_decoder ''textures/Leg.jpg'' = Some rgb_pixel" "supported_format rgb_pixel"
    "''floor'' \<notin> set (registered_tags fresh_scene)" "''leg'' \<notin> set (registered_tags fresh_scene)"
    "''leg'' \<noteq> ''floor''"
    "m_loadedTextures duplicate_tag_scene \<le> int (length (m_textureIDs duplicate_tag_scene))"
    by (simp_all add: tags)
      (simp_all add: fresh_scene_def duplicate_tag_scene_def rgb_decoder_def rgb_pixel_def
        supported_format_def)
  have n: "m_loadedTextures fresh_scene = 0" "m_loadedTextures duplicate_tag_scene = 3"
    "ID (m_textureIDs duplicate_tag_scene ! 0) = 7"
    "ID (m_textureIDs duplicate_tag_scene ! 1) = 8"
    "ID (m_textureIDs duplicate_tag_scene ! 2) = 9"
    by (simp_all add: fresh_scene_def duplicate_tag_scene_def)
  from load_find_unit_and_bind_follow_insertion_index
    [of fresh_scene rgb_decoder "''textures/Floor.jpg''" rgb_pixel "''textures/Leg.jpg''" rgb_pixel
        "''floor''" "''leg''" duplicate_tag_scene] h
  obtain first second bound where r:
    "CreateGLTexture rgb_decoder ''textures/Floor.jpg'' ''floor'' fresh_scene = Inr (True, first)"
    "registered_tags first = registered_tags fresh_scene @ [''floor'']"
    "FindTextureSlot ''floor'' first = Inr (m_loadedTextures fresh_scene)"
    "CreateGLTexture rgb_decoder ''textures/Leg.jpg'' ''leg'' first = Inr (True, second)"
    "registered_tags second = registered_tags fresh_scene @ [''floor'', ''leg'']"
    "FindTextureSlot ''leg'' second = Inr (m_loadedTextures fresh_scene + 1)"
    "BindGLTextures duplicate_tag_scene = Inr bound"
    "\<forall>i. 0 \<le> i \<and> i < m_loadedTextures duplicate_tag_scene \<longrightarrow>
        unit_texture (gl_calls (gl bound)) i = ID (m_textureIDs duplicate_tag_scene ! nat i)"
    by blast
  from r(8) n have "unit_texture (gl_calls (gl bound)) 0 = 7"
    "unit_texture (gl_calls (gl bound)) 1 = 8" "unit_texture (gl_calls (gl bound)) 2 = 9"
    by (simp_all add: nat_numeral [symmetric] del: nat_numeral)
  with r h tags n show ?thesis by auto
qed

text \<open>
  C9. With a shader manager present and a tag that the texture registry does not hold,
  \<^verbatim>\<open>SetShaderTexture\<close> reports nothing and changes two uniforms only: \<open>bUseTexture\<close>
  becomes 1 (the C++ \<^verbatim>\<open>true\<close>) and the sampler \<open>objectTexture\<close> becomes -1. No
  other uniform, \<open>objectColor\<close> included, is written.
\<close>

theorem SetShaderTexture_unresolved_tag_uploads_minus_one:
  assumes "m_pShaderManager this = Some sh"
    and "m_loadedTextures this \<le> int (length (m_textureIDs this))"
    and "textureTag \<notin> set (registered_tags this)"
  shows "SetShaderTexture textureTag this =
           Inr (this\<lparr>m_pShaderManager := Some
             (sh(''bUseTexture'' \<mapsto> UInt 1, ''objectTexture'' \<mapsto> USampler2D (- 1)))\<rparr>)"
  using assms FindTextureSlot_absent [of this textureTag]
  by (simp add: SetShaderTexture_def setIntValue_def setSampler2DValue_def
      g_UseTextureName_def g_TextureValueName_def)

theorem SetShaderTexture_unresolved_tag_witness:
  "m_pShaderManager (SetShaderColor 1 0 0 1 duplicate_tag_scene) =
     Some [''bUseTexture'' \<mapsto> UInt 0, ''objectColor'' \<mapsto> UVec4 (1, 0, 0, 1)] \<and>
   m_loadedTextures (SetShaderColor 1 0 0 1 duplicate_tag_scene)
     \<le> int (length (m_textureIDs (SetShaderColor 1 0 0 1 duplicate_tag_scene))) \<and>
   ''plate'' \<notin> set (registered_tags (SetShaderColor 1 0 0 1 duplicate_tag_scene)) \<and>
   SetShaderTexture ''plate'' (SetShaderColor 1 0 0 1 duplicate_tag_scene) =
     Inr (duplicate_tag_scene\<lparr>m_pShaderManager := Some
       [''bUseTexture'' \<mapsto> UInt 1, ''objectColor'' \<mapsto> UVec4 (1, 0, 0, 1),
        ''objectTexture'' \<mapsto> USampler2D (- 1)]\<rparr>)"
proof -
  have h: "m_pShaderManager (SetShaderColor 1 0 0 1 duplicate_tag_scene) =
     Some [''bUseTexture'' \<mapsto> UInt 0, ''objectColor'' \<mapsto> UVec4 (1, 0, 0, 1)]"
    "m_loadedTextures (SetShaderColor 1 0 0 1 duplicate_tag_scene)
     \<le> int (length (m_textureIDs (SetShaderColor 1 0 0 1 duplicate_tag_scene)))"
    "''plate'' \<notin> set (registered_tags (SetShaderColor 1 0 0 1 duplicate_tag_scene))"
    by (simp_all add: SetShaderColor_def duplicate_tag_scene_def fresh_scene_def setIntValue_def
        setVec4Value_def g_UseTextureName_def g_ColorValueName_def registered_tags_def numeral_eq_Suc)
  have "[''bUseTexture'' \<mapsto> UInt 0, ''objectColor'' \<mapsto> UVec4 (1, 0, 0, 1),
         ''bUseTexture'' \<mapsto> UInt 1, ''objectTexture'' \<mapsto> USampler2D (- 1)] =
        [''bUseTexture'' \<mapsto> UInt 1, ''objectColor'' \<mapsto> UVec4 (1, 0, 0, 1),
         ''objectTexture'' \<mapsto> USampler2D (- 1)]"
    by (rule ext) simp
  with SetShaderTexture_unresolved_tag_uploads_minus_one [OF h] h
  show ?thesis
    by (simp add: SetShaderColor_def duplicate_tag_scene_def fresh_scene_def setIntValue_def
        setVec4Value_def g_UseTextureName_def g_ColorValueName_def)
qed

text \<open>
  C10. With a null shader manager, \<^verbatim>\<open>SetTransformations\<close>, \<^verbatim>\<open>SetShaderColor\<close>,
  \<^verbatim>\<open>SetShaderTexture\<close> and \<^verbatim>\<open>SetTextureUVScale\<close> leave the state as it is, while
  \<^verbatim>\<open>SetShaderMaterial\<close>, when the material registry is not empty and the lookup
  reports success, dereferences the null pointer.
\<close>

theorem null_shader_manager_guarded_except_SetShaderMaterial:
  assumes "m_pShaderManager this = None"
  shows "SetTransformations scaleXYZ rx ry rz positionXYZ this = this \<and>
         SetShaderColor r g b a this = this \<and>
         SetShaderTexture textureTag this = Inr this \<and>
         SetTextureUVScale u v this = this \<and>
         (m_objectMaterials this \<noteq> [] \<and> fst (FindMaterial materialTag uninit this) = True \<longrightarrow>
            SetShaderMaterial uninit materialTag this = Inl NullPointerDereference)"
  using assms
  by (auto simp add: SetTransformations_def SetShaderColor_def SetShaderTexture_def
      SetTextureUVScale_def SetShaderMaterial_def split: prod.splits)

theorem null_shader_manager_witness:
  "m_pShaderManager (DefineObjectMaterials (fresh_scene\<lparr>m_pShaderManager := None\<rparr>)) = None \<and>
   SetTransformations (2, 1, 1) 0 90 0 (1, 0, 0)
       (DefineObjectMaterials (fresh_scene\<lparr>m_pShaderManager := None\<rparr>)) =
     DefineObjectMaterials (fresh_scene\<lparr>m_pShaderManager := None\<rparr>) \<and>
   SetShaderColor 1 0 0 1 (DefineObjectMaterials (fresh_scene\<lparr>m_pShaderManager := None\<rparr>)) =
     DefineObjectMaterials (fresh_scene\<lparr>m_pShaderManager := None\<rparr>) \<and>
   SetShaderTexture ''leg'' (DefineObjectMaterials (fresh_scene\<lparr>m_pShaderManager := None\<rparr>)) =
     Inr (DefineObjectMaterials (fresh_scene\<lparr>m_pShaderManager := None\<rparr>)) \<and>
   SetTextureUVScale 2 2 (DefineObjectMaterials (fresh_scene\<lparr>m_pShaderManager := None\<rparr>)) =
     DefineObjectMaterials (fresh_scene\<lparr>m_pShaderManager := None\<rparr>) \<and>
   m_objectMaterials (DefineObjectMaterials (fresh_scene\<lparr>m_pShaderManager := None\<rparr>)) \<noteq> [] \<and>
   fst (FindMaterial ''metal'' blank_material
          (DefineObjectMaterials (fresh_scene\<lparr>m_pShaderManager := None\<rparr>))) = True \<and>
   SetShaderMaterial blank_material ''metal''
       (DefineObjectMaterials (fresh_scene\<lparr>m_pShaderManager := None\<rparr>)) =
     Inl NullPointerDereference"
proof -
  have h: "m_pShaderManager (DefineObjectMaterials (fresh_scene\<lparr>m_pShaderManager := None\<rparr>)) = None"
    by (simp add: DefineObjectMaterials_def)
  have m: "m_objectMaterials (DefineObjectMaterials (fresh_scene\<lparr>m_pShaderManager := None\<rparr>)) \<noteq> []"
    by (simp add: DefineObjectMaterials_def push_back_def)
  then have f: "fst (FindMaterial ''metal'' blank_material
          (DefineObjectMaterials (fresh_scene\<lparr>m_pShaderManager := None\<rparr>))) = True"
    using FindMaterial_fails_iff_empty by blast
  from null_shader_manager_guarded_except_SetShaderMaterial
    [OF h, of "(2, 1, 1)" 0 90 0 "(1, 0, 0)" 1 0 0 1 "''leg''" 2 2 "''metal''" blank_material]
  show ?thesis using h m f by simp
qed

end
